theory Spec2Isabelle
  imports Main "HOL-Library.Word"
begin

section \<open>Data model (pkg/controllers/status.go and the API types it uses)\<close>

text \<open>
  Go errors. Every error this package builds itself comes from \<^verbatim>\<open>fmt.Errorf\<close> without
  the verb \<^verbatim>\<open>%w\<close>, whose dynamic type is \<^verbatim>\<open>*errors.errorString\<close> (a pointer to a struct
  with the single string field \<^verbatim>\<open>s\<close>), the same type \<^verbatim>\<open>errors.New\<close> returns. The model
  holds errors of that dynamic type.
\<close>

datatype go_error = ErrorString string

fun Error :: "go_error \<Rightarrow> string" where
  "Error (ErrorString s) = s"

text \<open>
  \<^verbatim>\<open>fmt\<close> applied to an error of dynamic type \<^verbatim>\<open>*errors.errorString\<close>.
  The verbs \<^verbatim>\<open>%v\<close> and \<^verbatim>\<open>%s\<close> call the \<^verbatim>\<open>Error()\<close> method. The verb \<^verbatim>\<open>%e\<close> is a
  floating-point verb: \<^verbatim>\<open>fmt\<close> consults \<^verbatim>\<open>Error()\<close> for the verbs v, s, x, X and q only,
  so for \<^verbatim>\<open>%e\<close> it prints the value by reflection: \<^verbatim>\<open>&\<close> for the top-level pointer to a
  struct, braces around the fields, and for the string field the bad-verb form
  \<^verbatim>\<open>%!e(string=...)\<close>.
\<close>

definition Sprintf_v :: "go_error \<Rightarrow> string" where
  "Sprintf_v err = Error err"

fun Sprintf_e :: "go_error \<Rightarrow> string" where
  "Sprintf_e (ErrorString s) = ''&{%!e(string='' @ s @ '')}''"

text \<open>\<^verbatim>\<open>%q\<close> on a string of plain printable ASCII without quotes or backslashes (the only
  arguments it gets here are the constants below): the string between double quotes.\<close>

definition Sprintf_q :: "string \<Rightarrow> string" where
  "Sprintf_q s = [CHR 0x22] @ s @ [CHR 0x22]"

type_synonym time = int

datatype ConditionStatus = ConditionTrue | ConditionFalse | ConditionUnknown

type_synonym ClusterStatusConditionType = string

definition OperatorAvailable :: ClusterStatusConditionType where
  "OperatorAvailable = ''Available''"

definition OperatorProgressing :: ClusterStatusConditionType where
  "OperatorProgressing = ''Progressing''"

definition OperatorDegraded :: ClusterStatusConditionType where
  "OperatorDegraded = ''Degraded''"

definition OperatorUpgradeable :: ClusterStatusConditionType where
  "OperatorUpgradeable = ''Upgradeable''"

record ClusterOperatorStatusCondition =
  Type :: ClusterStatusConditionType
  Status :: ConditionStatus
  LastTransitionTime :: time
  Reason :: string
  Message :: string

record OperandVersion =
  ov_Name :: string
  ov_Version :: string

record ObjectReference =
  ref_Group :: string
  ref_Resource :: string
  ref_Namespace :: string
  ref_Name :: string

text \<open>Slices are lists; a nil slice is the empty list. The code never tells the two apart
  on a path where it matters: \<^verbatim>\<open>reflect.DeepEqual\<close> is only called with a one-element left
  argument, \<^verbatim>\<open>equality.Semantic.DeepEqual\<close> treats nil and empty alike, and after the nil
  test of the removal transition an empty non-nil slice takes the next early return.\<close>

record ClusterOperatorStatus =
  Conditions :: "ClusterOperatorStatusCondition list"
  Versions :: "OperandVersion list"
  RelatedObjects :: "ObjectReference list"

record ClusterOperator =
  ObjectMeta_Name :: string
  co_Status :: ClusterOperatorStatus

definition ReasonAsExpected :: string where "ReasonAsExpected = ''AsExpected''"
definition ReasonInitializing :: string where "ReasonInitializing = ''Initializing''"
definition ReasonSyncing :: string where "ReasonSyncing = ''SyncingResources''"
definition ReasonSyncFailed :: string where "ReasonSyncFailed = ''SyncingFailed''"
definition ReasonPlatformTechPreview :: string where
  "ReasonPlatformTechPreview = ''PlatformTechPreview''"

definition clusterOperatorName :: string where
  "clusterOperatorName = ''cloud-controller-manager''"

definition operatorVersionKey :: string where
  "operatorVersionKey = ''operator''"

definition defaultManagementNamespace :: string where
  "defaultManagementNamespace = ''openshift-cloud-controller-manager-operator''"

definition GroupName :: string where
  "GroupName = ''config.openshift.io''"

section \<open>The store boundary\<close>

text \<open>
  \<^verbatim>\<open>client.Client\<close> is an interface. One invocation of a transition calls \<^verbatim>\<open>Get\<close> once,
  \<^verbatim>\<open>Create\<close> at most once and \<^verbatim>\<open>Status().Update\<close> at most once, so the client is a record
  of the three replies, each a function of the call's argument. \<^verbatim>\<open>Get\<close> answers with the
  stored object, with an error for which \<^verbatim>\<open>errors.IsNotFound\<close> holds, or with another error;
  \<^verbatim>\<open>Create\<close> answers with an error or with the object as the server returns it (it is
  written back through the pointer). The calls a function issues are returned in order
  beside its result.
\<close>

datatype get_outcome = Found ClusterOperator | NotFound | GetError go_error

record Client =
  Get :: "string \<Rightarrow> get_outcome"
  Create :: "ClusterOperator \<Rightarrow> go_error + ClusterOperator"
  StatusUpdate :: "ClusterOperator \<Rightarrow> go_error option"

datatype call =
  CallGet string
| CallCreate ClusterOperator
| CallStatusUpdate ClusterOperator

text \<open>\<^verbatim>\<open>ClusterOperatorStatusClient\<close>. The event recorder and \<^verbatim>\<open>klog\<close> return nothing the code
  reads and are left out.\<close>

record ClusterOperatorStatusClient =
  client :: Client
  Clock :: time
  ManagedNamespace :: string
  ReleaseVersion :: string

section \<open>Condition helpers of the vendored library\<close>

text \<open>
  Modelled from the spec: \<^verbatim>\<open>v1helpers.FindStatusCondition\<close>, \<^verbatim>\<open>v1helpers.SetStatusCondition\<close>
  and \<^verbatim>\<open>v1helpers.RemoveStatusCondition\<close> (vendored library-go; their bodies are not among
  the source files). Spec 4.2 and 6: \<open>findCondition(set, type)\<close> yields the condition of that
  type or absent; for each update, find the existing condition of the same type; if found
  and the status is unchanged keep the old lastTransitionTime, otherwise adopt the update's
  timestamp; if not found, insert as new (appended); the order of the other conditions is
  preserved. The call site passes \<^verbatim>\<open>r.Clock\<close>; the spec's rule takes every timestamp from
  the update or from the stored condition, so the argument is received and not consulted.
\<close>

definition FindStatusCondition ::
  "ClusterOperatorStatusCondition list \<Rightarrow> ClusterStatusConditionType
    \<Rightarrow> ClusterOperatorStatusCondition option" where
  "FindStatusCondition conditions conditionType =
     find (\<lambda>c. Type c = conditionType) conditions"

fun SetStatusCondition ::
  "ClusterOperatorStatusCondition list \<Rightarrow> ClusterOperatorStatusCondition \<Rightarrow> time
    \<Rightarrow> ClusterOperatorStatusCondition list" where
  "SetStatusCondition [] newCondition clock = [newCondition]"
| "SetStatusCondition (c # cs) newCondition clock =
     (if Type c = Type newCondition
      then newCondition\<lparr>LastTransitionTime :=
             (if Status c = Status newCondition then LastTransitionTime c
              else LastTransitionTime newCondition)\<rparr> # cs
      else c # SetStatusCondition cs newCondition clock)"

definition RemoveStatusCondition ::
  "ClusterOperatorStatusCondition list \<Rightarrow> ClusterStatusConditionType
    \<Rightarrow> ClusterOperatorStatusCondition list" where
  "RemoveStatusCondition conditions conditionType =
     filter (\<lambda>c. Type c \<noteq> conditionType) conditions"

section \<open>status.go\<close>

definition join_comma :: "string list \<Rightarrow> string" where
  "join_comma xs = (case xs of [] \<Rightarrow> [] | y # ys \<Rightarrow> foldl (\<lambda>acc s. acc @ '', '' @ s) y ys)"

definition printOperandVersions :: "OperandVersion list \<Rightarrow> string" where
  "printOperandVersions versions =
     join_comma (map (\<lambda>operand. ov_Name operand @ '': '' @ ov_Version operand) versions)"

text \<open>\<^verbatim>\<open>metav1.Now()\<close> reads the wall clock; the reading is the first argument.\<close>

definition newClusterOperatorStatusCondition ::
  "time \<Rightarrow> ClusterStatusConditionType \<Rightarrow> ConditionStatus \<Rightarrow> string \<Rightarrow> string
    \<Rightarrow> ClusterOperatorStatusCondition" where
  "newClusterOperatorStatusCondition now conditionType conditionStatus reason message =
     \<lparr>Type = conditionType, Status = conditionStatus, LastTransitionTime = now,
      Reason = reason, Message = message\<rparr>"

definition getOrCreateClusterOperator ::
  "ClusterOperatorStatusClient \<Rightarrow> (go_error + ClusterOperator) \<times> call list" where
  "getOrCreateClusterOperator r =
     (let co = \<lparr>ObjectMeta_Name = clusterOperatorName,
                co_Status = \<lparr>Conditions = [], Versions = [], RelatedObjects = []\<rparr>\<rparr>
      in case Get (client r) clusterOperatorName of
           NotFound \<Rightarrow>
             (case Create (client r) co of
                Inl err \<Rightarrow>
                  (Inl (ErrorString (''failed to create cluster operator: '' @ Sprintf_v err)),
                   [CallGet clusterOperatorName, CallCreate co])
              | Inr created \<Rightarrow> (Inr created, [CallGet clusterOperatorName, CallCreate co]))
         | GetError err \<Rightarrow>
             (Inl (ErrorString (''failed to get clusterOperator ''
                     @ Sprintf_q clusterOperatorName @ '': '' @ Sprintf_v err)),
              [CallGet clusterOperatorName])
         | Found stored \<Rightarrow> (Inr stored, [CallGet clusterOperatorName]))"

definition relatedObjects :: "ClusterOperatorStatusClient \<Rightarrow> ObjectReference list" where
  "relatedObjects r =
     [\<lparr>ref_Group = [], ref_Resource = ''namespaces'', ref_Namespace = [],
       ref_Name = defaultManagementNamespace\<rparr>,
      \<lparr>ref_Group = GroupName, ref_Resource = ''clusteroperators'', ref_Namespace = [],
       ref_Name = clusterOperatorName\<rparr>,
      \<lparr>ref_Group = [], ref_Resource = ''namespaces'', ref_Namespace = [],
       ref_Name = ManagedNamespace r\<rparr>]"

text \<open>One pass of either loop of \<^verbatim>\<open>syncStatus\<close>: the helper writes through
  \<^verbatim>\<open>&co.Status.Conditions\<close>.\<close>

definition setCondition ::
  "time \<Rightarrow> ClusterOperatorStatusCondition \<Rightarrow> ClusterOperator \<Rightarrow> ClusterOperator" where
  "setCondition clock c co =
     co\<lparr>co_Status := (co_Status co)\<lparr>Conditions :=
          SetStatusCondition (Conditions (co_Status co)) c clock\<rparr>\<rparr>"

text \<open>\<^verbatim>\<open>syncStatus\<close> up to the persist call: the object as it stands when
  \<^verbatim>\<open>Status().Update\<close> receives it.\<close>

definition syncedRecord ::
  "ClusterOperatorStatusClient \<Rightarrow> ClusterOperator \<Rightarrow> ClusterOperatorStatusCondition list
    \<Rightarrow> ClusterOperatorStatusCondition list \<Rightarrow> ClusterOperator" where
  "syncedRecord r co conds overrides =
     (let co1 = fold (setCondition (Clock r)) conds co;
          co2 = fold (setCondition (Clock r)) overrides co1
      in if RelatedObjects (co_Status co2) \<noteq> relatedObjects r
         then co2\<lparr>co_Status := (co_Status co2)\<lparr>RelatedObjects := relatedObjects r\<rparr>\<rparr>
         else co2)"

definition syncStatus ::
  "ClusterOperatorStatusClient \<Rightarrow> ClusterOperator \<Rightarrow> ClusterOperatorStatusCondition list
    \<Rightarrow> ClusterOperatorStatusCondition list \<Rightarrow> go_error option \<times> call list" where
  "syncStatus r co conds overrides =
     (let co' = syncedRecord r co conds overrides
      in (StatusUpdate (client r) co', [CallStatusUpdate co']))"

definition desiredVersions :: "ClusterOperatorStatusClient \<Rightarrow> OperandVersion list" where
  "desiredVersions r = [\<lparr>ov_Name = operatorVersionKey, ov_Version = ReleaseVersion r\<rparr>]"

text \<open>The transitions take the readings of \<^verbatim>\<open>metav1.Now()\<close> as a function: \<open>now k\<close> is the
  reading of the k-th condition the transition builds.\<close>

definition degradedConds ::
  "ClusterOperatorStatusClient \<Rightarrow> (nat \<Rightarrow> time) \<Rightarrow> ClusterOperator \<Rightarrow> go_error
    \<Rightarrow> ClusterOperatorStatusCondition list" where
  "degradedConds r now co reconcileErr =
     (let currentVersions = Versions (co_Status co);
          message =
            (if desiredVersions r \<noteq> currentVersions
             then ''Failed when progressing towards '' @ printOperandVersions (desiredVersions r)
                    @ '' because '' @ Sprintf_e reconcileErr
             else ''Failed to resync for '' @ printOperandVersions (desiredVersions r)
                    @ '' because '' @ Sprintf_e reconcileErr)
      in [newClusterOperatorStatusCondition (now 0) OperatorDegraded ConditionTrue
            ReasonSyncFailed message,
          newClusterOperatorStatusCondition (now 1) OperatorUpgradeable ConditionFalse
            ReasonAsExpected []])"

definition setStatusDegraded ::
  "ClusterOperatorStatusClient \<Rightarrow> (nat \<Rightarrow> time) \<Rightarrow> go_error
    \<Rightarrow> ClusterOperatorStatusCondition list \<Rightarrow> go_error option \<times> call list" where
  "setStatusDegraded r now reconcileErr overrides =
     (case getOrCreateClusterOperator r of
        (Inl err, calls) \<Rightarrow> (Some err, calls)
      | (Inr co, calls) \<Rightarrow>
          (let (res, calls') = syncStatus r co (degradedConds r now co reconcileErr) overrides
           in (res, calls @ calls')))"

definition progressingConds ::
  "ClusterOperatorStatusClient \<Rightarrow> (nat \<Rightarrow> time) \<Rightarrow> ClusterOperator
    \<Rightarrow> ClusterOperatorStatusCondition list" where
  "progressingConds r now co =
     (let currentVersions = Versions (co_Status co);
          (message, reason) =
            (if desiredVersions r \<noteq> currentVersions
             then (''Progressing towards '' @ printOperandVersions (desiredVersions r),
                   ReasonSyncing)
             else ([], ReasonAsExpected))
      in [newClusterOperatorStatusCondition (now 0) OperatorProgressing ConditionTrue
            reason message,
          newClusterOperatorStatusCondition (now 1) OperatorUpgradeable ConditionTrue
            ReasonAsExpected []])"

definition setStatusProgressing ::
  "ClusterOperatorStatusClient \<Rightarrow> (nat \<Rightarrow> time)
    \<Rightarrow> ClusterOperatorStatusCondition list \<Rightarrow> go_error option \<times> call list" where
  "setStatusProgressing r now overrides =
     (case getOrCreateClusterOperator r of
        (Inl err, calls) \<Rightarrow> (Some err, calls)
      | (Inr co, calls) \<Rightarrow>
          (let (res, calls') = syncStatus r co (progressingConds r now co) overrides
           in (res, calls @ calls')))"

definition availableConds ::
  "ClusterOperatorStatusClient \<Rightarrow> (nat \<Rightarrow> time) \<Rightarrow> ClusterOperatorStatusCondition list" where
  "availableConds r now =
     [newClusterOperatorStatusCondition (now 0) OperatorAvailable ConditionTrue
        ReasonAsExpected
        (''Cluster Cloud Controller Manager Operator is available at '' @ ReleaseVersion r),
      newClusterOperatorStatusCondition (now 1) OperatorProgressing ConditionFalse
        ReasonAsExpected [],
      newClusterOperatorStatusCondition (now 2) OperatorDegraded ConditionFalse
        ReasonAsExpected [],
      newClusterOperatorStatusCondition (now 3) OperatorUpgradeable ConditionTrue
        ReasonAsExpected []]"

definition setStatusAvailable ::
  "ClusterOperatorStatusClient \<Rightarrow> (nat \<Rightarrow> time)
    \<Rightarrow> ClusterOperatorStatusCondition list \<Rightarrow> go_error option \<times> call list" where
  "setStatusAvailable r now overrides =
     (case getOrCreateClusterOperator r of
        (Inl err, calls) \<Rightarrow> (Some err, calls)
      | (Inr co, calls) \<Rightarrow>
          (let co1 = co\<lparr>co_Status := (co_Status co)\<lparr>Versions := desiredVersions r\<rparr>\<rparr>;
               (res, calls') = syncStatus r co1 (availableConds r now) overrides
           in (res, calls @ calls')))"

text \<open>\<^verbatim>\<open>clearCloudControllerOwnerCondition\<close> is a method of the reconciler, which embeds the
  status client. The constant \<^verbatim>\<open>cloudControllerOwnershipCondition\<close> is declared in another
  file and is taken as a parameter.\<close>

definition clearCloudControllerOwnerCondition ::
  "ClusterStatusConditionType \<Rightarrow> ClusterOperatorStatusClient \<Rightarrow> go_error option \<times> call list"
  where
  "clearCloudControllerOwnerCondition cloudControllerOwnershipCondition r =
     (case getOrCreateClusterOperator r of
        (Inl err, calls) \<Rightarrow> (Some err, calls)
      | (Inr co, calls) \<Rightarrow>
          if Conditions (co_Status co) = [] then (None, calls)
          else if FindStatusCondition (Conditions (co_Status co))
                    cloudControllerOwnershipCondition = None
          then (None, calls)
          else
            (let co1 = co\<lparr>co_Status := (co_Status co)\<lparr>Conditions :=
                         RemoveStatusCondition (Conditions (co_Status co))
                           cloudControllerOwnershipCondition\<rparr>\<rparr>;
                 co2 = co1\<lparr>co_Status := (co_Status co1)\<lparr>Versions := desiredVersions r\<rparr>\<rparr>;
                 (res, calls') = syncStatus r co2 [] []
             in (res, calls @ calls')))"

section \<open>Trust bundle (package util)\<close>

text \<open>
  \<^verbatim>\<open>pem.Decode\<close> and \<^verbatim>\<open>x509.ParseCertificate\<close> belong to the Go standard library and are
  parameters: \<open>Decode\<close> returns the block it found (or none) and the rest of the input,
  \<open>ParseCertificate\<close> an error or a certificate. The loop runs while input remains, so
  with an arbitrary decoder it need not return: the result is an option.
\<close>

type_synonym bytes = "8 word list"

record Block =
  block_Type :: string
  block_Bytes :: bytes

definition certPEMBlock :: string where
  "certPEMBlock = ''CERTIFICATE''"

partial_function (option) CertificateData_loop ::
  "(bytes \<Rightarrow> Block option \<times> bytes) \<Rightarrow> (bytes \<Rightarrow> go_error + 'cert) \<Rightarrow> bytes \<Rightarrow> 'cert list
    \<Rightarrow> (go_error + 'cert list) option" where
  "CertificateData_loop Decode ParseCertificate certData certBundle =
     (if length certData \<noteq> 0
      then (case Decode certData of
              (None, rest) \<Rightarrow> Some (Inl (ErrorString ''failed to parse certificate PEM''))
            | (Some block, rest) \<Rightarrow>
                if block_Type block \<noteq> certPEMBlock
                then Some (Inl (ErrorString (''invalid certificate PEM, must be of type ''
                                   @ Sprintf_q certPEMBlock)))
                else (case ParseCertificate (block_Bytes block) of
                        Inl err \<Rightarrow> Some (Inl (ErrorString (''failed to parse certificate: ''
                                                  @ Sprintf_v err)))
                      | Inr cert \<Rightarrow>
                          CertificateData_loop Decode ParseCertificate rest (certBundle @ [cert])))
      else Some (Inr certBundle))"

definition CertificateData ::
  "(bytes \<Rightarrow> Block option \<times> bytes) \<Rightarrow> (bytes \<Rightarrow> go_error + 'cert) \<Rightarrow> bytes
    \<Rightarrow> (go_error + 'cert list) option" where
  "CertificateData Decode ParseCertificate certData =
     CertificateData_loop Decode ParseCertificate certData []"

text \<open>What \<^verbatim>\<open>pem.Decode\<close> guarantees and the loop relies on: a block that was found has
  been taken off the input.\<close>

definition consuming :: "(bytes \<Rightarrow> Block option \<times> bytes) \<Rightarrow> bool" where
  "consuming Decode \<longleftrightarrow>
     (\<forall>dat block rest. Decode dat = (Some block, rest) \<longrightarrow> length rest < length dat)"

text \<open>
  The specification side, for comparison with the loop: the PEM blocks of the input are the
  successive results of decoding it, up to the end of the input or the first failure to
  decode (\<open>None\<close>); a block is bad when it failed to decode, has another type than
  CERTIFICATE or does not parse; \<open>certOf\<close> is the certificate parsed from a block.
  The test on the length of the rest makes the recursion terminate for every decoder; for a
  consuming decoder it always holds.
\<close>

function pemBlocks :: "(bytes \<Rightarrow> Block option \<times> bytes) \<Rightarrow> bytes \<Rightarrow> Block option list" where
  "pemBlocks Decode dat =
     (if dat = [] then []
      else (case Decode dat of
              (None, rest) \<Rightarrow> [None]
            | (Some block, rest) \<Rightarrow>
                Some block # (if length rest < length dat then pemBlocks Decode rest else [])))"
  by pat_completeness auto
termination
  by (relation "measure (\<lambda>(Decode, dat). length dat)") auto

definition badBlock :: "(bytes \<Rightarrow> go_error + 'cert) \<Rightarrow> Block option \<Rightarrow> bool" where
  "badBlock ParseCertificate b =
     (case b of None \<Rightarrow> True
      | Some block \<Rightarrow> block_Type block \<noteq> certPEMBlock
                      \<or> isl (ParseCertificate (block_Bytes block)))"

definition certOf :: "(bytes \<Rightarrow> go_error + 'cert) \<Rightarrow> Block option \<Rightarrow> 'cert" where
  "certOf ParseCertificate b = projr (ParseCertificate (block_Bytes (the b)))"

declare pemBlocks.simps [simp del]

section \<open>Auxiliary definitions for the proofs\<close>

text \<open>What one update does to the stored condition of its type: the update with the
  timestamp rule applied (the right-hand side of the found case of
  \<^const>\<open>SetStatusCondition\<close>).\<close>

definition absorb ::
  "ClusterOperatorStatusCondition \<Rightarrow> ClusterOperatorStatusCondition
    \<Rightarrow> ClusterOperatorStatusCondition" where
  "absorb e u = u\<lparr>LastTransitionTime :=
     (if Status e = Status u then LastTransitionTime e else LastTransitionTime u)\<rparr>"

text \<open>A loop of \<^verbatim>\<open>syncStatus\<close> seen on the condition list alone.\<close>

definition mergeConditions ::
  "time \<Rightarrow> ClusterOperatorStatusCondition list \<Rightarrow> ClusterOperatorStatusCondition list
    \<Rightarrow> ClusterOperatorStatusCondition list" where
  "mergeConditions clock updates existing =
     fold (\<lambda>u cs. SetStatusCondition cs u clock) updates existing"

subsection \<open>Concrete inputs\<close>

definition ex_client :: Client where
  "ex_client = \<lparr>Get = (\<lambda>_. NotFound), Create = (\<lambda>co. Inr co), StatusUpdate = (\<lambda>_. None)\<rparr>"

definition ex_r :: ClusterOperatorStatusClient where
  "ex_r = \<lparr>client = ex_client, Clock = 0,
           ManagedNamespace = ''openshift-cloud-controller-manager'',
           ReleaseVersion = ''4.16.0''\<rparr>"

definition ex_progressing :: "time \<Rightarrow> ClusterOperatorStatusCondition" where
  "ex_progressing t = \<lparr>Type = ''Progressing'', Status = ConditionTrue,
     LastTransitionTime = t, Reason = ''AsExpected'', Message = []\<rparr>"

definition ex_co :: ClusterOperator where
  "ex_co = \<lparr>ObjectMeta_Name = ''cloud-controller-manager'',
            co_Status = \<lparr>Conditions = [ex_progressing 5],
                          Versions = [\<lparr>ov_Name = ''operator'', ov_Version = ''4.16.0''\<rparr>],
                          RelatedObjects = relatedObjects ex_r\<rparr>\<rparr>"

definition ex_degraded :: "ConditionStatus \<Rightarrow> time \<Rightarrow> ClusterOperatorStatusCondition" where
  "ex_degraded s t = \<lparr>Type = ''Degraded'', Status = s, LastTransitionTime = t,
     Reason = ''SyncingFailed'', Message = ''boom''\<rparr>"

definition ex_degraded_co :: ClusterOperator where
  "ex_degraded_co = \<lparr>ObjectMeta_Name = ''cloud-controller-manager'',
            co_Status = \<lparr>Conditions = [ex_degraded ConditionTrue 100],
                          Versions = [\<lparr>ov_Name = ''operator'', ov_Version = ''4.16.0''\<rparr>],
                          RelatedObjects = relatedObjects ex_r\<rparr>\<rparr>"

definition ex_found_client :: Client where
  "ex_found_client = \<lparr>Get = (\<lambda>_. Found ex_co), Create = (\<lambda>co. Inr co),
                       StatusUpdate = (\<lambda>_. None)\<rparr>"

definition ex_found_r :: ClusterOperatorStatusClient where
  "ex_found_r = ex_r\<lparr>client := ex_found_client\<rparr>"

definition ex_refusing_client :: Client where
  "ex_refusing_client = \<lparr>Get = (\<lambda>_. GetError (ErrorString ''connection refused'')),
                          Create = (\<lambda>co. Inr co), StatusUpdate = (\<lambda>_. None)\<rparr>"

definition ex_refusing_r :: ClusterOperatorStatusClient where
  "ex_refusing_r = ex_r\<lparr>client := ex_refusing_client\<rparr>"

definition emptyClusterOperator :: ClusterOperator where
  "emptyClusterOperator = \<lparr>ObjectMeta_Name = ''cloud-controller-manager'',
     co_Status = \<lparr>Conditions = [], Versions = [], RelatedObjects = []\<rparr>\<rparr>"

definition ex_forbidden_r :: ClusterOperatorStatusClient where
  "ex_forbidden_r = ex_r\<lparr>client :=
     \<lparr>Get = (\<lambda>_. NotFound), Create = (\<lambda>_. Inl (ErrorString ''forbidden'')),
      StatusUpdate = (\<lambda>_. None)\<rparr>\<rparr>"

definition ex_conflict_r :: ClusterOperatorStatusClient where
  "ex_conflict_r = ex_r\<lparr>client :=
     \<lparr>Get = (\<lambda>_. Found ex_co), Create = (\<lambda>co. Inr co),
      StatusUpdate = (\<lambda>_. Some (ErrorString ''conflict''))\<rparr>\<rparr>"

definition ex_owner_co :: ClusterOperator where
  "ex_owner_co = \<lparr>ObjectMeta_Name = ''cloud-controller-manager'',
     co_Status = \<lparr>Conditions =
                     [\<lparr>Type = ''CloudControllerOwner'', Status = ConditionTrue,
                       LastTransitionTime = 3, Reason = ''AsExpected'', Message = []\<rparr>],
                   Versions = [\<lparr>ov_Name = ''operator'', ov_Version = ''4.15.0''\<rparr>],
                   RelatedObjects = []\<rparr>\<rparr>"

definition ex_owner_r :: ClusterOperatorStatusClient where
  "ex_owner_r = ex_r\<lparr>client :=
     \<lparr>Get = (\<lambda>_. Found ex_owner_co), Create = (\<lambda>co. Inr co),
      StatusUpdate = (\<lambda>_. None)\<rparr>\<rparr>"

definition ex_Decode :: "bytes \<Rightarrow> Block option \<times> bytes" where
  "ex_Decode dat =
     (case dat of [] \<Rightarrow> (None, [])
      | x # xs \<Rightarrow> if x = 0 then (None, dat)
                  else (Some \<lparr>block_Type = ''CERTIFICATE'', block_Bytes = [x]\<rparr>, xs))"

definition ex_Parse :: "bytes \<Rightarrow> go_error + bytes" where
  "ex_Parse der = (if der = [255] then Inl (ErrorString ''x509: malformed certificate'')
                   else Inr der)"

section \<open>The merge engine\<close>

lemma fold_setCondition:
  "fold (setCondition k) us co =
     co\<lparr>co_Status := (co_Status co)\<lparr>Conditions := mergeConditions k us (Conditions (co_Status co))\<rparr>\<rparr>"
  by (induction us arbitrary: co) (simp_all add: mergeConditions_def setCondition_def)

lemma merge_Cons:
  "mergeConditions k us (c # cs) =
     fold (\<lambda>u e. absorb e u) (filter (\<lambda>u. Type u = Type c) us) c
       # mergeConditions k (filter (\<lambda>u. Type u \<noteq> Type c) us) cs"
  by (induction us arbitrary: c cs) (auto simp add: mergeConditions_def absorb_def)

lemma lane_pair:
  "fold (\<lambda>u e. absorb e u) vs (u\<lparr>LastTransitionTime := ta\<rparr>)
     = fold (\<lambda>u e. absorb e u) vs (u\<lparr>LastTransitionTime := tb\<rparr>)
   \<or> (Status (fold (\<lambda>u e. absorb e u) vs (u\<lparr>LastTransitionTime := ta\<rparr>)) = Status u
      \<and> LastTransitionTime (fold (\<lambda>u e. absorb e u) vs (u\<lparr>LastTransitionTime := ta\<rparr>)) = ta
      \<and> fold (\<lambda>u e. absorb e u) vs (u\<lparr>LastTransitionTime := tb\<rparr>)
          = (fold (\<lambda>u e. absorb e u) vs (u\<lparr>LastTransitionTime := ta\<rparr>))\<lparr>LastTransitionTime := tb\<rparr>)"
proof (induction vs arbitrary: u ta tb)
  case Nil
  show ?case by simp
next
  case (Cons v vs)
  show ?case
  proof (cases "Status u = Status v")
    case True
    then show ?thesis using Cons.IH [where u=v and ta=ta and tb=tb] by (simp add: absorb_def)
  next
    case False
    then show ?thesis by (simp add: absorb_def)
  qed
qed

lemma lane_idem:
  "fold (\<lambda>u e. absorb e u) ws (fold (\<lambda>u e. absorb e u) ws e) = fold (\<lambda>u e. absorb e u) ws e"
proof (cases ws)
  case Nil
  then show ?thesis by simp
next
  case (Cons u vs)
  let ?L = "fold (\<lambda>u e. absorb e u) vs"
  let ?t1 = "if Status e = Status u then LastTransitionTime e else LastTransitionTime u"
  let ?q = "?L (u\<lparr>LastTransitionTime := ?t1\<rparr>)"
  let ?t2 = "if Status ?q = Status u then LastTransitionTime ?q else LastTransitionTime u"
  have a: "absorb e u = u\<lparr>LastTransitionTime := ?t1\<rparr>" by (simp add: absorb_def)
  have b: "absorb ?q u = u\<lparr>LastTransitionTime := ?t2\<rparr>" by (simp add: absorb_def)
  have "?L (u\<lparr>LastTransitionTime := ?t2\<rparr>) = ?q"
    using lane_pair [where vs=vs and u=u and ta="?t1" and tb="?t2"] by (elim disjE) simp_all
  then show ?thesis using Cons a b by simp
qed

lemma lane_Type:
  "\<forall>u\<in>set ws. Type u = T \<Longrightarrow> Type e = T \<Longrightarrow> Type (fold (\<lambda>u e. absorb e u) ws e) = T"
  by (induction ws arbitrary: e) (simp_all add: absorb_def)

lemma merge_idem_Nil:
  "mergeConditions k us (mergeConditions k us []) = mergeConditions k us []"
proof (induction us rule: length_induct)
  case (1 us)
  show ?case
  proof (cases us)
    case Nil
    then show ?thesis by (simp add: mergeConditions_def)
  next
    case (Cons u vs)
    define same where "same = filter (\<lambda>x. Type x = Type u) vs"
    define rest where "rest = filter (\<lambda>x. Type x \<noteq> Type u) vs"
    define h where "h = fold (\<lambda>u e. absorb e u) same u"
    define t where "t = mergeConditions k rest []"
    have first: "mergeConditions k us [] = h # t"
      using Cons merge_Cons [of k vs u "[]"]
      by (simp add: mergeConditions_def h_def t_def same_def rest_def)
    have ty: "Type h = Type u"
      unfolding h_def same_def by (rule lane_Type) simp_all
    have shorter: "length rest < length us"
      using Cons by (simp add: rest_def le_imp_less_Suc)
    have tail: "mergeConditions k rest t = t"
      unfolding t_def using 1 shorter by blast
    have uu: "absorb u u = u" by (simp add: absorb_def)
    have hu: "fold (\<lambda>u e. absorb e u) (u # same) u = h"
      by (simp add: uu h_def)
    have head: "fold (\<lambda>u e. absorb e u) (u # same) h = h"
      using lane_idem [of "u # same" u] unfolding hu .
    have fs: "filter (\<lambda>x. Type x = Type h) us = u # same"
      by (simp add: Cons ty same_def)
    have fr: "filter (\<lambda>x. Type x \<noteq> Type h) us = rest"
      by (simp add: Cons ty rest_def)
    have "mergeConditions k us (h # t) = h # t"
      unfolding merge_Cons [of k us h t] fs fr head tail ..
    then show ?thesis unfolding first .
  qed
qed

lemma merge_idem:
  "mergeConditions k us (mergeConditions k us cs) = mergeConditions k us cs"
proof (induction cs arbitrary: us)
  case Nil
  show ?case by (rule merge_idem_Nil)
next
  case (Cons c cs)
  define same where "same = filter (\<lambda>u. Type u = Type c) us"
  define rest where "rest = filter (\<lambda>u. Type u \<noteq> Type c) us"
  define h where "h = fold (\<lambda>u e. absorb e u) same c"
  define t where "t = mergeConditions k rest cs"
  have first: "mergeConditions k us (c # cs) = h # t"
    unfolding merge_Cons [of k us c cs] h_def t_def same_def rest_def ..
  have ty: "Type h = Type c"
    unfolding h_def same_def by (rule lane_Type) simp_all
  have head: "fold (\<lambda>u e. absorb e u) same h = h"
    unfolding h_def by (rule lane_idem)
  have tail: "mergeConditions k rest t = t"
    unfolding t_def by (rule Cons.IH)
  have "mergeConditions k us (h # t) = h # t"
    unfolding merge_Cons [of k us h t] ty same_def [symmetric] rest_def [symmetric] head tail ..
  then show ?case unfolding first .
qed


lemma merge_append:
  "mergeConditions k overrides (mergeConditions k conds cs) = mergeConditions k (conds @ overrides) cs"
  by (simp add: mergeConditions_def)

lemma syncedRecord_eq:
  "syncedRecord r co conds overrides =
     co\<lparr>co_Status :=
          \<lparr>Conditions = mergeConditions (Clock r) (conds @ overrides) (Conditions (co_Status co)),
           Versions = Versions (co_Status co),
           RelatedObjects = relatedObjects r\<rparr>\<rparr>"
  by (simp add: syncedRecord_def fold_setCondition merge_append Let_def)

lemma find_set_same:
  "FindStatusCondition (SetStatusCondition cs u k) (Type u)
     = Some (case FindStatusCondition cs (Type u) of None \<Rightarrow> u | Some e \<Rightarrow> absorb e u)"
  by (induction cs) (simp_all add: FindStatusCondition_def absorb_def)

lemma find_set_other:
  "Type u \<noteq> T \<Longrightarrow> FindStatusCondition (SetStatusCondition cs u k) T = FindStatusCondition cs T"
  by (induction cs) (simp_all add: FindStatusCondition_def)

lemma find_merge_other:
  "\<forall>u\<in>set us. Type u \<noteq> T \<Longrightarrow>
     FindStatusCondition (mergeConditions k us cs) T = FindStatusCondition cs T"
  by (induction us arbitrary: cs) (simp_all add: mergeConditions_def find_set_other)

lemma find_merge_stored:
  "FindStatusCondition cs T = Some e \<Longrightarrow>
     FindStatusCondition (mergeConditions k us cs) T
       = Some (fold (\<lambda>u e. absorb e u) (filter (\<lambda>u. Type u = T) us) e)"
proof (induction us arbitrary: cs e)
  case Nil
  then show ?case by (simp add: mergeConditions_def)
next
  case (Cons u us)
  show ?case
  proof (cases "Type u = T")
    case True
    have "FindStatusCondition (SetStatusCondition cs u k) T = Some (absorb e u)"
      using find_set_same [of cs u k] Cons.prems True by simp
    from Cons.IH [OF this] show ?thesis using True by (simp add: mergeConditions_def)
  next
    case False
    have "FindStatusCondition (SetStatusCondition cs u k) T = Some e"
      using find_set_other [OF False] Cons.prems by simp
    from Cons.IH [OF this] show ?thesis using False by (simp add: mergeConditions_def)
  qed
qed

lemma lane_keeps_time:
  "\<forall>u\<in>set ws. Status u = Status e \<Longrightarrow>
     LastTransitionTime (fold (\<lambda>u e. absorb e u) ws e) = LastTransitionTime e
     \<and> Status (fold (\<lambda>u e. absorb e u) ws e) = Status e"
proof (induction ws arbitrary: e)
  case Nil
  show ?case by simp
next
  case (Cons w ws)
  have s: "Status (absorb e w) = Status e" and t: "LastTransitionTime (absorb e w) = LastTransitionTime e"
    using Cons.prems by (simp_all add: absorb_def)
  have "\<forall>u\<in>set ws. Status u = Status (absorb e w)" using Cons.prems s by simp
  from Cons.IH [OF this] show ?case using s t by simp
qed

lemma lane_time_source:
  "LastTransitionTime (fold (\<lambda>u e. absorb e u) ws e) = LastTransitionTime e
   \<or> LastTransitionTime (fold (\<lambda>u e. absorb e u) ws e) \<in> LastTransitionTime ` set ws"
proof (induction ws arbitrary: e)
  case Nil
  show ?case by simp
next
  case (Cons w ws)
  have "LastTransitionTime (absorb e w) = LastTransitionTime e
        \<or> LastTransitionTime (absorb e w) = LastTransitionTime w"
    by (simp add: absorb_def)
  then show ?case using Cons.IH [of "absorb e w"] by auto
qed

lemma conditions_synced:
  "Conditions (co_Status (syncedRecord r co conds overrides))
     = mergeConditions (Clock r) (conds @ overrides) (Conditions (co_Status co))"
  by (simp add: syncedRecord_eq)

section \<open>The sync orchestrator\<close>

text \<open>
  C1 (as the code has it). Every invocation of \<^verbatim>\<open>syncStatus\<close> issues exactly one persist
  call, \<^verbatim>\<open>Status().Update\<close> on the merged record, whether or not that record differs from
  the one it was given, and returns that call's reply.
\<close>

theorem syncStatus_always_persists:
  "syncStatus r co conds overrides =
     (StatusUpdate (client r) (syncedRecord r co conds overrides),
      [CallStatusUpdate (syncedRecord r co conds overrides)])"
  by (simp add: syncStatus_def Let_def)

text \<open>
  C1 (as stated) fails: here the merged conditions, versions and related objects equal
  those already in the record, and the persist call is issued all the same.
\<close>

theorem syncStatus_persists_unchanged_record:
  "syncedRecord ex_r ex_co [ex_progressing 9] [] = ex_co
   \<and> snd (syncStatus ex_r ex_co [ex_progressing 9] []) = [CallStatusUpdate ex_co]"
  by (simp add: syncStatus_def Let_def syncedRecord_eq mergeConditions_def ex_co_def
        ex_progressing_def)

text \<open>
  C2. Sync is idempotent: for every record, policy condition list and override list,
  computing the synced record from the result of a first sync with the same inputs gives
  that result again.
\<close>

theorem sync_idempotent:
  "syncedRecord r (syncedRecord r co conds overrides) conds overrides
     = syncedRecord r co conds overrides"
  by (simp add: syncedRecord_eq merge_idem)

text \<open>
  C3 (as the code has it). Within one sync of a record that stores a condition of type T:
  when every policy and override condition of type T carries the stored status, the
  lastTransitionTime of T is unchanged (reason and message may differ), so the timestamp
  can change only when some policy or override condition of that type carries another
  status (which includes a policy condition that flips the status and an override that
  flips it back); and the timestamp after the sync is not earlier than the stored one when
  time does not run backwards, that is when neither the clock reading nor the stamp of an
  update of type T is earlier than the stored timestamp.
\<close>

theorem sync_transition_time:
  assumes "FindStatusCondition (Conditions (co_Status co)) T = Some e"
  shows "\<exists>e'. FindStatusCondition (Conditions (co_Status (syncedRecord r co conds overrides))) T
                 = Some e'
     \<and> ((\<forall>u\<in>set (conds @ overrides). Type u = T \<longrightarrow> Status u = Status e)
            \<longrightarrow> LastTransitionTime e' = LastTransitionTime e \<and> Status e' = Status e)
     \<and> (LastTransitionTime e \<le> Clock r
          \<and> (\<forall>u\<in>set (conds @ overrides). Type u = T
                 \<longrightarrow> LastTransitionTime e \<le> LastTransitionTime u)
            \<longrightarrow> LastTransitionTime e \<le> LastTransitionTime e')"
proof -
  define ws where "ws = filter (\<lambda>u. Type u = T) (conds @ overrides)"
  define e' where "e' = fold (\<lambda>u e. absorb e u) ws e"
  have found: "FindStatusCondition (Conditions (co_Status (syncedRecord r co conds overrides))) T
                 = Some e'"
    unfolding conditions_synced e'_def ws_def by (rule find_merge_stored [OF assms])
  have mem: "set ws = {u \<in> set (conds @ overrides). Type u = T}"
    by (auto simp add: ws_def)
  have keep: "(\<forall>u\<in>set (conds @ overrides). Type u = T \<longrightarrow> Status u = Status e)
            \<longrightarrow> LastTransitionTime e' = LastTransitionTime e \<and> Status e' = Status e"
  proof
    assume "\<forall>u\<in>set (conds @ overrides). Type u = T \<longrightarrow> Status u = Status e"
    then have "\<forall>u\<in>set ws. Status u = Status e" unfolding mem by blast
    then show "LastTransitionTime e' = LastTransitionTime e \<and> Status e' = Status e"
      unfolding e'_def by (rule lane_keeps_time)
  qed
  have src: "LastTransitionTime e' = LastTransitionTime e
          \<or> (\<exists>u\<in>set (conds @ overrides). Type u = T
                  \<and> LastTransitionTime e' = LastTransitionTime u)"
    using lane_time_source [of ws e] unfolding e'_def [symmetric] mem by blast
  have mono: "LastTransitionTime e \<le> Clock r
          \<and> (\<forall>u\<in>set (conds @ overrides). Type u = T
                 \<longrightarrow> LastTransitionTime e \<le> LastTransitionTime u)
            \<longrightarrow> LastTransitionTime e \<le> LastTransitionTime e'"
    using src by auto
  show ?thesis using found keep mono by blast
qed

theorem sync_transition_time_witness:
  "(\<exists>e'. FindStatusCondition
          (Conditions (co_Status (syncedRecord (ex_r\<lparr>Clock := 9\<rparr>) ex_co
             [(ex_progressing 9)\<lparr>Reason := ''SyncingResources''\<rparr>] [])))
          ''Progressing'' = Some e'
        \<and> LastTransitionTime e' = 5 \<and> Status e' = ConditionTrue)
   \<and> (\<exists>e'. FindStatusCondition
          (Conditions (co_Status (syncedRecord (ex_r\<lparr>Clock := 9\<rparr>) ex_co
             [(ex_progressing 9)\<lparr>Status := ConditionFalse\<rparr>] [])))
          ''Progressing'' = Some e'
        \<and> 5 \<le> LastTransitionTime e')"
proof -
  have h: "FindStatusCondition (Conditions (co_Status ex_co)) ''Progressing''
             = Some (ex_progressing 5)"
    by (simp add: ex_co_def FindStatusCondition_def ex_progressing_def)
  have a: "\<forall>u\<in>set ([(ex_progressing 9)\<lparr>Reason := ''SyncingResources''\<rparr>] @ []).
             Type u = ''Progressing'' \<longrightarrow> Status u = Status (ex_progressing 5)"
    by (simp add: ex_progressing_def)
  have b: "LastTransitionTime (ex_progressing 5) \<le> Clock (ex_r\<lparr>Clock := 9\<rparr>)
           \<and> (\<forall>u\<in>set ([(ex_progressing 9)\<lparr>Status := ConditionFalse\<rparr>] @ []).
                 Type u = ''Progressing''
                   \<longrightarrow> LastTransitionTime (ex_progressing 5) \<le> LastTransitionTime u)"
    by (simp add: ex_progressing_def)
  have t: "LastTransitionTime (ex_progressing 5) = 5" "Status (ex_progressing 5) = ConditionTrue"
    by (simp_all add: ex_progressing_def)
  from a sync_transition_time [OF h, of "ex_r\<lparr>Clock := 9\<rparr>"
      "[(ex_progressing 9)\<lparr>Reason := ''SyncingResources''\<rparr>]" "[]"]
  have keep: "\<exists>e'. FindStatusCondition
          (Conditions (co_Status (syncedRecord (ex_r\<lparr>Clock := 9\<rparr>) ex_co
             [(ex_progressing 9)\<lparr>Reason := ''SyncingResources''\<rparr>] [])))
          ''Progressing'' = Some e'
        \<and> LastTransitionTime e' = 5 \<and> Status e' = ConditionTrue"
    unfolding t by blast
  from b sync_transition_time [OF h, of "ex_r\<lparr>Clock := 9\<rparr>"
      "[(ex_progressing 9)\<lparr>Status := ConditionFalse\<rparr>]" "[]"]
  have flip: "\<exists>e'. FindStatusCondition
          (Conditions (co_Status (syncedRecord (ex_r\<lparr>Clock := 9\<rparr>) ex_co
             [(ex_progressing 9)\<lparr>Status := ConditionFalse\<rparr>] [])))
          ''Progressing'' = Some e'
        \<and> 5 \<le> LastTransitionTime e'"
    unfolding t by blast
  show ?thesis using keep flip by (intro conjI)
qed

text \<open>
  C3 (as stated) fails. Degraded is stored True since 100. At clock reading 300 the
  Available transition's conditions set it False and an override sets it True again: after
  the sync its status equals the stored one and its lastTransitionTime does not. And at
  clock reading 50, earlier than the stored stamp, an override stamped at that reading
  flips it to False: the status changes and the new timestamp is earlier than the old one.
\<close>

theorem sync_restamps_unchanged_status:
  "FindStatusCondition (Conditions (co_Status ex_degraded_co)) ''Degraded''
     = Some (ex_degraded ConditionTrue 100)
   \<and> FindStatusCondition
        (Conditions (co_Status (syncedRecord (ex_r\<lparr>Clock := 300\<rparr>) ex_degraded_co
           (availableConds (ex_r\<lparr>Clock := 300\<rparr>) (\<lambda>k. 300))
           [ex_degraded ConditionTrue 300])))
        ''Degraded'' = Some (ex_degraded ConditionTrue 300)
   \<and> Status (ex_degraded ConditionTrue 300) = Status (ex_degraded ConditionTrue 100)
   \<and> LastTransitionTime (ex_degraded ConditionTrue 300)
       \<noteq> LastTransitionTime (ex_degraded ConditionTrue 100)
   \<and> FindStatusCondition
        (Conditions (co_Status (syncedRecord (ex_r\<lparr>Clock := 50\<rparr>) ex_degraded_co []
           [ex_degraded ConditionFalse 50])))
        ''Degraded'' = Some (ex_degraded ConditionFalse 50)
   \<and> Status (ex_degraded ConditionFalse 50) \<noteq> Status (ex_degraded ConditionTrue 100)
   \<and> LastTransitionTime (ex_degraded ConditionFalse 50)
       < LastTransitionTime (ex_degraded ConditionTrue 100)"
  by (simp add: syncedRecord_eq mergeConditions_def ex_degraded_co_def ex_degraded_def
        availableConds_def newClusterOperatorStatusCondition_def FindStatusCondition_def
        OperatorAvailable_def OperatorProgressing_def OperatorDegraded_def
        OperatorUpgradeable_def)

text \<open>
  C4. Overrides take precedence: when the policy list sets type T to status A and the
  override list sets T to status B (its last condition of type T carries B), with A and B
  different, the condition of type T after the sync has status B (and the override's
  reason and message); the overrides are merged after the policy conditions.
\<close>

theorem override_precedence:
  assumes "p \<in> set conds" and "Type p = T" and "Status p = A"
    and "overrides = os1 @ [ov] @ os2" and "Type ov = T" and "Status ov = B"
    and "\<forall>u\<in>set os2. Type u \<noteq> T"
    and "A \<noteq> B"
  shows "(\<exists>c. FindStatusCondition
               (Conditions (co_Status (syncedRecord r co conds overrides))) T = Some c
             \<and> Status c = B \<and> Reason c = Reason ov \<and> Message c = Message ov)
       \<and> Conditions (co_Status (syncedRecord r co conds overrides))
           = mergeConditions (Clock r) overrides
               (mergeConditions (Clock r) conds (Conditions (co_Status co)))"
proof -
  define mid where "mid = mergeConditions (Clock r) (conds @ os1) (Conditions (co_Status co))"
  have split: "Conditions (co_Status (syncedRecord r co conds overrides))
                 = mergeConditions (Clock r) os2 (SetStatusCondition mid ov (Clock r))"
    unfolding conditions_synced assms(4) mid_def by (simp add: mergeConditions_def)
  have "FindStatusCondition (Conditions (co_Status (syncedRecord r co conds overrides))) T
          = FindStatusCondition (SetStatusCondition mid ov (Clock r)) T"
    unfolding split by (rule find_merge_other [OF assms(7)])
  also have "\<dots> = Some (case FindStatusCondition mid (Type ov) of None \<Rightarrow> ov
                          | Some e \<Rightarrow> absorb e ov)"
    using find_set_same [of mid ov "Clock r"] assms(5) by simp
  finally have f: "FindStatusCondition
       (Conditions (co_Status (syncedRecord r co conds overrides))) T
         = Some (case FindStatusCondition mid (Type ov) of None \<Rightarrow> ov | Some e \<Rightarrow> absorb e ov)" .
  have s: "Status (case FindStatusCondition mid (Type ov) of None \<Rightarrow> ov | Some e \<Rightarrow> absorb e ov) = B
         \<and> Reason (case FindStatusCondition mid (Type ov) of None \<Rightarrow> ov | Some e \<Rightarrow> absorb e ov) = Reason ov
         \<and> Message (case FindStatusCondition mid (Type ov) of None \<Rightarrow> ov | Some e \<Rightarrow> absorb e ov) = Message ov"
    using assms(6) by (simp add: absorb_def split: option.split)
  have order: "Conditions (co_Status (syncedRecord r co conds overrides))
           = mergeConditions (Clock r) overrides
               (mergeConditions (Clock r) conds (Conditions (co_Status co)))"
    unfolding conditions_synced by (simp add: merge_append)
  show ?thesis using f s order by blast
qed

theorem override_precedence_witness:
  "\<exists>c. FindStatusCondition
         (Conditions (co_Status (syncedRecord ex_r ex_degraded_co
            (availableConds ex_r (\<lambda>k. 200)) [ex_degraded ConditionTrue 300])))
         ''Degraded'' = Some c \<and> Status c = ConditionTrue"
proof -
  let ?p = "newClusterOperatorStatusCondition 200 OperatorDegraded ConditionFalse
              ReasonAsExpected []"
  have 1: "?p \<in> set (availableConds ex_r (\<lambda>k. 200))" by (simp add: availableConds_def)
  have 2: "Type ?p = ''Degraded''"
    by (simp add: newClusterOperatorStatusCondition_def OperatorDegraded_def)
  have 3: "Status ?p = ConditionFalse" by (simp add: newClusterOperatorStatusCondition_def)
  have 4: "[ex_degraded ConditionTrue 300] = [] @ [ex_degraded ConditionTrue 300] @ []" by simp
  have 5: "Type (ex_degraded ConditionTrue 300) = ''Degraded''" by (simp add: ex_degraded_def)
  have 6: "Status (ex_degraded ConditionTrue 300) = ConditionTrue" by (simp add: ex_degraded_def)
  have 7: "\<forall>u\<in>set []. Type u \<noteq> ''Degraded''" by simp
  have 8: "ConditionFalse \<noteq> ConditionTrue" by simp
  from override_precedence [OF 1 2 3 4 5 6 7 8, of ex_r ex_degraded_co]
  show ?thesis by blast
qed


section \<open>The transitions\<close>

lemma getOrCreate_GetError:
  "Get (client r) clusterOperatorName = GetError e \<Longrightarrow>
     getOrCreateClusterOperator r =
       (Inl (ErrorString (''failed to get clusterOperator '' @ [CHR 0x22]
               @ ''cloud-controller-manager'' @ [CHR 0x22] @ '': '' @ Error e)),
        [CallGet clusterOperatorName])"
  by (simp add: getOrCreateClusterOperator_def Sprintf_q_def Sprintf_v_def clusterOperatorName_def)

lemma getOrCreate_Found:
  "Get (client r) clusterOperatorName = Found co \<Longrightarrow>
     getOrCreateClusterOperator r = (Inr co, [CallGet clusterOperatorName])"
  by (simp add: getOrCreateClusterOperator_def)

lemma getOrCreate_CreateError:
  "Get (client r) clusterOperatorName = NotFound \<Longrightarrow>
   Create (client r) emptyClusterOperator = Inl e \<Longrightarrow>
     getOrCreateClusterOperator r =
       (Inl (ErrorString (''failed to create cluster operator: '' @ Error e)),
        [CallGet clusterOperatorName, CallCreate emptyClusterOperator])"
  by (simp add: getOrCreateClusterOperator_def Sprintf_v_def emptyClusterOperator_def
        clusterOperatorName_def)

lemma getOrCreate_Created:
  "Get (client r) clusterOperatorName = NotFound \<Longrightarrow>
   Create (client r) emptyClusterOperator = Inr co \<Longrightarrow>
     getOrCreateClusterOperator r =
       (Inr co, [CallGet clusterOperatorName, CallCreate emptyClusterOperator])"
  by (simp add: getOrCreateClusterOperator_def emptyClusterOperator_def clusterOperatorName_def)

lemma setStatusDegraded_err:
  "getOrCreateClusterOperator r = (Inl err, calls) \<Longrightarrow>
     setStatusDegraded r now e ovr = (Some err, calls)"
  by (simp add: setStatusDegraded_def)

lemma setStatusProgressing_err:
  "getOrCreateClusterOperator r = (Inl err, calls) \<Longrightarrow>
     setStatusProgressing r now ovr = (Some err, calls)"
  by (simp add: setStatusProgressing_def)

lemma setStatusAvailable_err:
  "getOrCreateClusterOperator r = (Inl err, calls) \<Longrightarrow>
     setStatusAvailable r now ovr = (Some err, calls)"
  by (simp add: setStatusAvailable_def)

lemma clear_err:
  "getOrCreateClusterOperator r = (Inl err, calls) \<Longrightarrow>
     clearCloudControllerOwnerCondition T r = (Some err, calls)"
  by (simp add: clearCloudControllerOwnerCondition_def)

lemma setStatusDegraded_ok:
  "getOrCreateClusterOperator r = (Inr co, calls) \<Longrightarrow>
     setStatusDegraded r now e ovr =
       (StatusUpdate (client r) (syncedRecord r co (degradedConds r now co e) ovr),
        calls @ [CallStatusUpdate (syncedRecord r co (degradedConds r now co e) ovr)])"
  by (simp add: setStatusDegraded_def syncStatus_def Let_def)

lemma setStatusProgressing_ok:
  "getOrCreateClusterOperator r = (Inr co, calls) \<Longrightarrow>
     setStatusProgressing r now ovr =
       (StatusUpdate (client r) (syncedRecord r co (progressingConds r now co) ovr),
        calls @ [CallStatusUpdate (syncedRecord r co (progressingConds r now co) ovr)])"
  by (simp add: setStatusProgressing_def syncStatus_def Let_def)

lemma setStatusAvailable_ok:
  "getOrCreateClusterOperator r = (Inr co, calls) \<Longrightarrow>
     setStatusAvailable r now ovr =
       (StatusUpdate (client r)
          (syncedRecord r (co\<lparr>co_Status := (co_Status co)\<lparr>Versions := desiredVersions r\<rparr>\<rparr>)
             (availableConds r now) ovr),
        calls @ [CallStatusUpdate
          (syncedRecord r (co\<lparr>co_Status := (co_Status co)\<lparr>Versions := desiredVersions r\<rparr>\<rparr>)
             (availableConds r now) ovr)])"
  by (simp add: setStatusAvailable_def syncStatus_def Let_def)

lemma clear_absent:
  "getOrCreateClusterOperator r = (Inr co, calls) \<Longrightarrow>
   FindStatusCondition (Conditions (co_Status co)) T = None \<Longrightarrow>
     clearCloudControllerOwnerCondition T r = (None, calls)"
  by (simp add: clearCloudControllerOwnerCondition_def)

lemma find_Nil: "FindStatusCondition [] T = None"
  by (simp add: FindStatusCondition_def)

lemma clear_present:
  "getOrCreateClusterOperator r = (Inr co, calls) \<Longrightarrow>
   FindStatusCondition (Conditions (co_Status co)) T \<noteq> None \<Longrightarrow>
     clearCloudControllerOwnerCondition T r =
       (StatusUpdate (client r)
          (syncedRecord r
             (co\<lparr>co_Status := (co_Status co)\<lparr>Conditions :=
                                 RemoveStatusCondition (Conditions (co_Status co)) T,
                               Versions := desiredVersions r\<rparr>\<rparr>) [] []),
        calls @ [CallStatusUpdate
          (syncedRecord r
             (co\<lparr>co_Status := (co_Status co)\<lparr>Conditions :=
                                 RemoveStatusCondition (Conditions (co_Status co)) T,
                               Versions := desiredVersions r\<rparr>\<rparr>) [] [])])"
proof -
  assume g: "getOrCreateClusterOperator r = (Inr co, calls)"
    and f: "FindStatusCondition (Conditions (co_Status co)) T \<noteq> None"
  have ne: "Conditions (co_Status co) \<noteq> []" using f find_Nil by metis
  show ?thesis
    using g f ne by (simp add: clearCloudControllerOwnerCondition_def syncStatus_def Let_def)
qed

lemma versions_synced:
  "Versions (co_Status (syncedRecord r co conds ovr)) = Versions (co_Status co)"
  by (simp add: syncedRecord_eq)

text \<open>
  C5. The Degraded transition at reconcile error \<^verbatim>\<open>errors.New("connection refused")\<close>,
  release version 4.16.0 and stored versions equal to the desired list: the Degraded
  condition is True with reason SyncingFailed and Upgradeable is False with reason
  AsExpected, and the message ends in the \<^verbatim>\<open>%e\<close> rendering of the error value, not
  in its text.
\<close>

theorem degraded_resync_message:
  "degradedConds ex_r (\<lambda>k. 100) ex_co (ErrorString ''connection refused'') =
     [\<lparr>Type = ''Degraded'', Status = ConditionTrue, LastTransitionTime = 100,
       Reason = ''SyncingFailed'',
       Message = ''Failed to resync for operator: 4.16.0 because &{%!e(string=connection refused)}''\<rparr>,
      \<lparr>Type = ''Upgradeable'', Status = ConditionFalse, LastTransitionTime = 100,
       Reason = ''AsExpected'', Message = []\<rparr>]
   \<and> Message (hd (degradedConds ex_r (\<lambda>k. 100) ex_co (ErrorString ''connection refused'')))
       \<noteq> ''Failed to resync for operator: 4.16.0 because connection refused''
   \<and> Versions (co_Status ex_co) = desiredVersions ex_r"
  by (simp add: degradedConds_def desiredVersions_def ex_co_def ex_r_def
        printOperandVersions_def join_comma_def newClusterOperatorStatusCondition_def
        operatorVersionKey_def OperatorDegraded_def OperatorUpgradeable_def
        ReasonSyncFailed_def ReasonAsExpected_def)

text \<open>
  C6 (as stated) fails: the store's \<^verbatim>\<open>Get\<close> fails with "connection refused" (not a
  not-found error) and the transition returns another error.
\<close>

theorem fetch_error_is_wrapped:
  "setStatusDegraded ex_refusing_r (\<lambda>k. 7) (ErrorString ''x'') [] =
     (Some (ErrorString (''failed to get clusterOperator '' @ [CHR 0x22]
              @ ''cloud-controller-manager'' @ [CHR 0x22] @ '': connection refused'')),
      [CallGet ''cloud-controller-manager''])
   \<and> Get (client ex_refusing_r) ''cloud-controller-manager''
       = GetError (ErrorString ''connection refused'')
   \<and> fst (setStatusDegraded ex_refusing_r (\<lambda>k. 7) (ErrorString ''x'') [])
       \<noteq> Some (ErrorString ''connection refused'')"
  by (simp add: setStatusDegraded_def getOrCreateClusterOperator_def ex_refusing_r_def
        ex_refusing_client_def clusterOperatorName_def Sprintf_q_def Sprintf_v_def)

text \<open>
  C6 (as the code has it). A failed \<^verbatim>\<open>Get\<close> other than not-found and a failed \<^verbatim>\<open>Create\<close>
  reach the caller of every transition as a new error, the store error's text behind a
  fixed prefix; the reply of \<^verbatim>\<open>Status().Update\<close> is returned as it is. No call is
  repeated: a failed fetch or create ends the transition after that call, and the persist
  call is issued once.
\<close>

theorem store_errors_to_caller:
  assumes "Get (client r1) clusterOperatorName = GetError e1"
    and "Get (client r2) clusterOperatorName = NotFound"
    and "Create (client r2) emptyClusterOperator = Inl e2"
    and "getOrCreateClusterOperator r3 = (Inr co, calls)"
    and "w1 = ErrorString (''failed to get clusterOperator '' @ [CHR 0x22]
               @ ''cloud-controller-manager'' @ [CHR 0x22] @ '': '' @ Error e1)"
    and "w2 = ErrorString (''failed to create cluster operator: '' @ Error e2)"
  shows "setStatusDegraded r1 now rerr ovr = (Some w1, [CallGet clusterOperatorName])
     \<and> setStatusProgressing r1 now ovr = (Some w1, [CallGet clusterOperatorName])
     \<and> setStatusAvailable r1 now ovr = (Some w1, [CallGet clusterOperatorName])
     \<and> clearCloudControllerOwnerCondition T r1 = (Some w1, [CallGet clusterOperatorName])
     \<and> setStatusDegraded r2 now rerr ovr
          = (Some w2, [CallGet clusterOperatorName, CallCreate emptyClusterOperator])
     \<and> setStatusProgressing r2 now ovr
          = (Some w2, [CallGet clusterOperatorName, CallCreate emptyClusterOperator])
     \<and> setStatusAvailable r2 now ovr
          = (Some w2, [CallGet clusterOperatorName, CallCreate emptyClusterOperator])
     \<and> clearCloudControllerOwnerCondition T r2
          = (Some w2, [CallGet clusterOperatorName, CallCreate emptyClusterOperator])
     \<and> (\<exists>co'. setStatusDegraded r3 now rerr ovr
                  = (StatusUpdate (client r3) co', calls @ [CallStatusUpdate co']))
     \<and> (\<exists>co'. setStatusProgressing r3 now ovr
                  = (StatusUpdate (client r3) co', calls @ [CallStatusUpdate co']))
     \<and> (\<exists>co'. setStatusAvailable r3 now ovr
                  = (StatusUpdate (client r3) co', calls @ [CallStatusUpdate co']))
     \<and> (FindStatusCondition (Conditions (co_Status co)) T \<noteq> None \<longrightarrow>
          (\<exists>co'. clearCloudControllerOwnerCondition T r3
                  = (StatusUpdate (client r3) co', calls @ [CallStatusUpdate co'])))"
proof -
  note g1 = getOrCreate_GetError [OF assms(1), folded assms(5)]
  note g2 = getOrCreate_CreateError [OF assms(2) assms(3), folded assms(6)]
  have a: "setStatusDegraded r1 now rerr ovr = (Some w1, [CallGet clusterOperatorName])"
    by (rule setStatusDegraded_err [OF g1])
  have b: "setStatusProgressing r1 now ovr = (Some w1, [CallGet clusterOperatorName])"
    by (rule setStatusProgressing_err [OF g1])
  have c: "setStatusAvailable r1 now ovr = (Some w1, [CallGet clusterOperatorName])"
    by (rule setStatusAvailable_err [OF g1])
  have d: "clearCloudControllerOwnerCondition T r1 = (Some w1, [CallGet clusterOperatorName])"
    by (rule clear_err [OF g1])
  have a2: "setStatusDegraded r2 now rerr ovr
          = (Some w2, [CallGet clusterOperatorName, CallCreate emptyClusterOperator])"
    by (rule setStatusDegraded_err [OF g2])
  have b2: "setStatusProgressing r2 now ovr
          = (Some w2, [CallGet clusterOperatorName, CallCreate emptyClusterOperator])"
    by (rule setStatusProgressing_err [OF g2])
  have c2: "setStatusAvailable r2 now ovr
          = (Some w2, [CallGet clusterOperatorName, CallCreate emptyClusterOperator])"
    by (rule setStatusAvailable_err [OF g2])
  have d2: "clearCloudControllerOwnerCondition T r2
          = (Some w2, [CallGet clusterOperatorName, CallCreate emptyClusterOperator])"
    by (rule clear_err [OF g2])
  have a3: "\<exists>co'. setStatusDegraded r3 now rerr ovr
                  = (StatusUpdate (client r3) co', calls @ [CallStatusUpdate co'])"
    using setStatusDegraded_ok [OF assms(4)] by blast
  have b3: "\<exists>co'. setStatusProgressing r3 now ovr
                  = (StatusUpdate (client r3) co', calls @ [CallStatusUpdate co'])"
    using setStatusProgressing_ok [OF assms(4)] by blast
  have c3: "\<exists>co'. setStatusAvailable r3 now ovr
                  = (StatusUpdate (client r3) co', calls @ [CallStatusUpdate co'])"
    using setStatusAvailable_ok [OF assms(4)] by blast
  have d3: "FindStatusCondition (Conditions (co_Status co)) T \<noteq> None \<longrightarrow>
          (\<exists>co'. clearCloudControllerOwnerCondition T r3
                  = (StatusUpdate (client r3) co', calls @ [CallStatusUpdate co']))"
    using clear_present [OF assms(4)] by blast
  show ?thesis using a b c d a2 b2 c2 d2 a3 b3 c3 d3 by (intro conjI)
qed

theorem store_errors_to_caller_witness:
  "setStatusDegraded ex_refusing_r (\<lambda>k. 7) (ErrorString ''x'') []
     = (Some (ErrorString (''failed to get clusterOperator '' @ [CHR 0x22]
                @ ''cloud-controller-manager'' @ [CHR 0x22] @ '': connection refused'')),
        [CallGet ''cloud-controller-manager''])
   \<and> setStatusAvailable ex_forbidden_r (\<lambda>k. 7) []
     = (Some (ErrorString ''failed to create cluster operator: forbidden''),
        [CallGet ''cloud-controller-manager'', CallCreate emptyClusterOperator])
   \<and> fst (setStatusProgressing ex_conflict_r (\<lambda>k. 7) []) = Some (ErrorString ''conflict'')
   \<and> length (snd (setStatusProgressing ex_conflict_r (\<lambda>k. 7) [])) = 2"
proof -
  have h1: "Get (client ex_refusing_r) clusterOperatorName
              = GetError (ErrorString ''connection refused'')"
    by (simp add: ex_refusing_r_def ex_refusing_client_def)
  have h2: "Get (client ex_forbidden_r) clusterOperatorName = NotFound"
    by (simp add: ex_forbidden_r_def)
  have h3: "Create (client ex_forbidden_r) emptyClusterOperator = Inl (ErrorString ''forbidden'')"
    by (simp add: ex_forbidden_r_def)
  have h4: "getOrCreateClusterOperator ex_conflict_r = (Inr ex_co, [CallGet clusterOperatorName])"
    by (simp add: getOrCreateClusterOperator_def ex_conflict_r_def)
  have u: "\<And>x. StatusUpdate (client ex_conflict_r) x = Some (ErrorString ''conflict'')"
    by (simp add: ex_conflict_r_def)
  note all = store_errors_to_caller [OF h1 h2 h3 h4 refl refl,
               of "\<lambda>k. 7" "ErrorString ''x''" "[]" "''CloudControllerOwner''"]
  from all have a: "setStatusDegraded ex_refusing_r (\<lambda>k. 7) (ErrorString ''x'') []
     = (Some (ErrorString (''failed to get clusterOperator '' @ [CHR 0x22]
                @ ''cloud-controller-manager'' @ [CHR 0x22] @ '': connection refused'')),
        [CallGet ''cloud-controller-manager''])"
    by (simp add: clusterOperatorName_def)
  from all have b: "setStatusAvailable ex_forbidden_r (\<lambda>k. 7) []
     = (Some (ErrorString ''failed to create cluster operator: forbidden''),
        [CallGet ''cloud-controller-manager'', CallCreate emptyClusterOperator])"
    by (simp add: clusterOperatorName_def)
  from all obtain co' where "setStatusProgressing ex_conflict_r (\<lambda>k. 7) []
     = (StatusUpdate (client ex_conflict_r) co',
        [CallGet clusterOperatorName] @ [CallStatusUpdate co'])"
    by blast
  then have c: "fst (setStatusProgressing ex_conflict_r (\<lambda>k. 7) [])
                  = Some (ErrorString ''conflict'')
                \<and> length (snd (setStatusProgressing ex_conflict_r (\<lambda>k. 7) [])) = 2"
    by (simp add: u)
  show ?thesis using a b c by (intro conjI) simp_all
qed

text \<open>
  C7. On the record fetched or created, the Degraded and Progressing transitions persist a
  record with the versions unchanged; the Available transition persists versions equal to
  the single pair of "operator" and the release version; the removal transition writes
  nothing when the named condition is absent, and persists exactly that single pair when it
  is present.
\<close>

theorem versions_frame:
  assumes "getOrCreateClusterOperator r = (Inr co, calls)"
  shows "(\<exists>co'. snd (setStatusDegraded r now rerr ovr) = calls @ [CallStatusUpdate co']
              \<and> Versions (co_Status co') = Versions (co_Status co))
     \<and> (\<exists>co'. snd (setStatusProgressing r now ovr) = calls @ [CallStatusUpdate co']
              \<and> Versions (co_Status co') = Versions (co_Status co))
     \<and> (\<exists>co'. snd (setStatusAvailable r now ovr) = calls @ [CallStatusUpdate co']
              \<and> Versions (co_Status co')
                  = [\<lparr>ov_Name = ''operator'', ov_Version = ReleaseVersion r\<rparr>])
     \<and> (FindStatusCondition (Conditions (co_Status co)) T = None
            \<longrightarrow> snd (clearCloudControllerOwnerCondition T r) = calls)
     \<and> (FindStatusCondition (Conditions (co_Status co)) T \<noteq> None
            \<longrightarrow> (\<exists>co'. snd (clearCloudControllerOwnerCondition T r)
                         = calls @ [CallStatusUpdate co']
                   \<and> Versions (co_Status co')
                       = [\<lparr>ov_Name = ''operator'', ov_Version = ReleaseVersion r\<rparr>]))"
proof -
  have d: "desiredVersions r = [\<lparr>ov_Name = ''operator'', ov_Version = ReleaseVersion r\<rparr>]"
    by (simp add: desiredVersions_def operatorVersionKey_def)
  have a: "\<exists>co'. snd (setStatusDegraded r now rerr ovr) = calls @ [CallStatusUpdate co']
              \<and> Versions (co_Status co') = Versions (co_Status co)"
    by (simp add: setStatusDegraded_ok [OF assms] versions_synced)
  have b: "\<exists>co'. snd (setStatusProgressing r now ovr) = calls @ [CallStatusUpdate co']
              \<and> Versions (co_Status co') = Versions (co_Status co)"
    by (simp add: setStatusProgressing_ok [OF assms] versions_synced)
  have c: "\<exists>co'. snd (setStatusAvailable r now ovr) = calls @ [CallStatusUpdate co']
              \<and> Versions (co_Status co')
                  = [\<lparr>ov_Name = ''operator'', ov_Version = ReleaseVersion r\<rparr>]"
    by (simp add: setStatusAvailable_ok [OF assms] versions_synced d)
  have e: "FindStatusCondition (Conditions (co_Status co)) T = None
            \<longrightarrow> snd (clearCloudControllerOwnerCondition T r) = calls"
    by (simp add: clear_absent [OF assms])
  have f: "FindStatusCondition (Conditions (co_Status co)) T \<noteq> None
            \<longrightarrow> (\<exists>co'. snd (clearCloudControllerOwnerCondition T r)
                         = calls @ [CallStatusUpdate co']
                   \<and> Versions (co_Status co')
                       = [\<lparr>ov_Name = ''operator'', ov_Version = ReleaseVersion r\<rparr>])"
  proof
    assume p: "FindStatusCondition (Conditions (co_Status co)) T \<noteq> None"
    show "\<exists>co'. snd (clearCloudControllerOwnerCondition T r) = calls @ [CallStatusUpdate co']
                   \<and> Versions (co_Status co')
                       = [\<lparr>ov_Name = ''operator'', ov_Version = ReleaseVersion r\<rparr>]"
      by (simp add: clear_present [OF assms p] versions_synced d)
  qed
  show ?thesis using a b c e f by (intro conjI)
qed

theorem versions_frame_witness:
  "(\<exists>co'. snd (setStatusDegraded ex_owner_r (\<lambda>k. 7) (ErrorString ''x'') [])
            = [CallGet ''cloud-controller-manager''] @ [CallStatusUpdate co']
          \<and> Versions (co_Status co') = [\<lparr>ov_Name = ''operator'', ov_Version = ''4.15.0''\<rparr>])
   \<and> (\<exists>co'. snd (setStatusAvailable ex_owner_r (\<lambda>k. 7) [])
            = [CallGet ''cloud-controller-manager''] @ [CallStatusUpdate co']
          \<and> Versions (co_Status co') = [\<lparr>ov_Name = ''operator'', ov_Version = ''4.16.0''\<rparr>])
   \<and> (\<exists>co'. snd (clearCloudControllerOwnerCondition ''CloudControllerOwner'' ex_owner_r)
            = [CallGet ''cloud-controller-manager''] @ [CallStatusUpdate co']
          \<and> Versions (co_Status co') = [\<lparr>ov_Name = ''operator'', ov_Version = ''4.16.0''\<rparr>])
   \<and> snd (clearCloudControllerOwnerCondition ''Legacy'' ex_owner_r)
        = [CallGet ''cloud-controller-manager'']"
proof -
  have g: "getOrCreateClusterOperator ex_owner_r
             = (Inr ex_owner_co, [CallGet ''cloud-controller-manager''])"
    by (simp add: getOrCreateClusterOperator_def ex_owner_r_def clusterOperatorName_def)
  have v: "Versions (co_Status ex_owner_co) = [\<lparr>ov_Name = ''operator'', ov_Version = ''4.15.0''\<rparr>]"
    by (simp add: ex_owner_co_def)
  have rv: "ReleaseVersion ex_owner_r = ''4.16.0''" by (simp add: ex_owner_r_def ex_r_def)
  have p: "FindStatusCondition (Conditions (co_Status ex_owner_co)) ''CloudControllerOwner'' \<noteq> None"
    by (simp add: ex_owner_co_def FindStatusCondition_def)
  have q: "FindStatusCondition (Conditions (co_Status ex_owner_co)) ''Legacy'' = None"
    by (simp add: ex_owner_co_def FindStatusCondition_def)
  show ?thesis
    using versions_frame [OF g, of "\<lambda>k. 7" "ErrorString ''x''" "[]" "''CloudControllerOwner''"]
      versions_frame [OF g, of "\<lambda>k. 7" "ErrorString ''x''" "[]" "''Legacy''"] p q
    unfolding v rv by blast
qed

text \<open>
  C8. The Progressing transition: when the stored versions differ from the desired
  single-element list it computes Progressing True with reason SyncingResources and message
  "Progressing towards operator: " followed by the release version, with Upgradeable True
  and reason AsExpected; when they are equal it computes Progressing True with reason
  AsExpected and an empty message, with the same Upgradeable condition. These are the
  conditions it hands to the sync.
\<close>

theorem progressing_conditions:
  assumes "getOrCreateClusterOperator r = (Inr co, calls)"
  shows "(Versions (co_Status co) \<noteq> [\<lparr>ov_Name = ''operator'', ov_Version = ReleaseVersion r\<rparr>]
            \<longrightarrow> progressingConds r now co =
                  [\<lparr>Type = ''Progressing'', Status = ConditionTrue, LastTransitionTime = now 0,
                    Reason = ''SyncingResources'',
                    Message = ''Progressing towards operator: '' @ ReleaseVersion r\<rparr>,
                   \<lparr>Type = ''Upgradeable'', Status = ConditionTrue, LastTransitionTime = now 1,
                    Reason = ''AsExpected'', Message = []\<rparr>])
     \<and> (Versions (co_Status co) = [\<lparr>ov_Name = ''operator'', ov_Version = ReleaseVersion r\<rparr>]
            \<longrightarrow> progressingConds r now co =
                  [\<lparr>Type = ''Progressing'', Status = ConditionTrue, LastTransitionTime = now 0,
                    Reason = ''AsExpected'', Message = []\<rparr>,
                   \<lparr>Type = ''Upgradeable'', Status = ConditionTrue, LastTransitionTime = now 1,
                    Reason = ''AsExpected'', Message = []\<rparr>])
     \<and> setStatusProgressing r now ovr =
           (StatusUpdate (client r) (syncedRecord r co (progressingConds r now co) ovr),
            calls @ [CallStatusUpdate (syncedRecord r co (progressingConds r now co) ovr)])"
proof -
  have a: "Versions (co_Status co) \<noteq> [\<lparr>ov_Name = ''operator'', ov_Version = ReleaseVersion r\<rparr>]
            \<longrightarrow> progressingConds r now co =
                  [\<lparr>Type = ''Progressing'', Status = ConditionTrue, LastTransitionTime = now 0,
                    Reason = ''SyncingResources'',
                    Message = ''Progressing towards operator: '' @ ReleaseVersion r\<rparr>,
                   \<lparr>Type = ''Upgradeable'', Status = ConditionTrue, LastTransitionTime = now 1,
                    Reason = ''AsExpected'', Message = []\<rparr>]"
    by (auto simp add: progressingConds_def desiredVersions_def printOperandVersions_def
          join_comma_def newClusterOperatorStatusCondition_def operatorVersionKey_def
          OperatorProgressing_def OperatorUpgradeable_def ReasonSyncing_def ReasonAsExpected_def)
  have b: "Versions (co_Status co) = [\<lparr>ov_Name = ''operator'', ov_Version = ReleaseVersion r\<rparr>]
            \<longrightarrow> progressingConds r now co =
                  [\<lparr>Type = ''Progressing'', Status = ConditionTrue, LastTransitionTime = now 0,
                    Reason = ''AsExpected'', Message = []\<rparr>,
                   \<lparr>Type = ''Upgradeable'', Status = ConditionTrue, LastTransitionTime = now 1,
                    Reason = ''AsExpected'', Message = []\<rparr>]"
    by (auto simp add: progressingConds_def desiredVersions_def
          newClusterOperatorStatusCondition_def operatorVersionKey_def
          OperatorProgressing_def OperatorUpgradeable_def ReasonAsExpected_def)
  show ?thesis using a b setStatusProgressing_ok [OF assms] by (intro conjI)
qed

theorem progressing_conditions_witness:
  "progressingConds ex_r (\<lambda>k. 7) emptyClusterOperator =
     [\<lparr>Type = ''Progressing'', Status = ConditionTrue, LastTransitionTime = 7,
       Reason = ''SyncingResources'', Message = ''Progressing towards operator: 4.16.0''\<rparr>,
      \<lparr>Type = ''Upgradeable'', Status = ConditionTrue, LastTransitionTime = 7,
       Reason = ''AsExpected'', Message = []\<rparr>]
   \<and> progressingConds ex_found_r (\<lambda>k. 7) ex_co =
     [\<lparr>Type = ''Progressing'', Status = ConditionTrue, LastTransitionTime = 7,
       Reason = ''AsExpected'', Message = []\<rparr>,
      \<lparr>Type = ''Upgradeable'', Status = ConditionTrue, LastTransitionTime = 7,
       Reason = ''AsExpected'', Message = []\<rparr>]"
proof -
  have g1: "getOrCreateClusterOperator ex_r
              = (Inr emptyClusterOperator,
                 [CallGet clusterOperatorName, CallCreate emptyClusterOperator])"
    by (simp add: getOrCreateClusterOperator_def ex_r_def ex_client_def emptyClusterOperator_def
          clusterOperatorName_def Let_def)
  have g2: "getOrCreateClusterOperator ex_found_r = (Inr ex_co, [CallGet clusterOperatorName])"
    by (simp add: getOrCreateClusterOperator_def ex_found_r_def ex_found_client_def)
  have v1: "Versions (co_Status emptyClusterOperator)
              \<noteq> [\<lparr>ov_Name = ''operator'', ov_Version = ReleaseVersion ex_r\<rparr>]"
    by (simp add: emptyClusterOperator_def)
  have v2: "Versions (co_Status ex_co)
              = [\<lparr>ov_Name = ''operator'', ov_Version = ReleaseVersion ex_found_r\<rparr>]"
    by (simp add: ex_co_def ex_found_r_def ex_r_def)
  have rv: "ReleaseVersion ex_r = ''4.16.0''" by (simp add: ex_r_def)
  show ?thesis
    using progressing_conditions [OF g1, of "\<lambda>k. 7" "[]"]
      progressing_conditions [OF g2, of "\<lambda>k. 7" "[]"] v1 v2 rv
    by simp
qed

lemma find_None_absent:
  "FindStatusCondition cs T = None \<longleftrightarrow> T \<notin> Type ` set cs"
  by (auto simp add: FindStatusCondition_def find_None_iff)

lemma getOrCreate_calls:
  "getOrCreateClusterOperator r = (res, calls) \<Longrightarrow> CallStatusUpdate x \<notin> set calls"
  by (auto simp add: getOrCreateClusterOperator_def Let_def
        split: get_outcome.splits sum.splits)

text \<open>
  C9. The removal transition on a record whose condition set is empty or lacks the target
  type returns no error and issues no call beyond those of the fetch: no persist call, and
  when the record was found, the \<^verbatim>\<open>Get\<close> alone.
\<close>

theorem removal_noop:
  assumes "getOrCreateClusterOperator r = (Inr co, calls)"
    and "Conditions (co_Status co) = [] \<or> T \<notin> Type ` set (Conditions (co_Status co))"
  shows "clearCloudControllerOwnerCondition T r = (None, calls)
     \<and> (\<forall>x. CallStatusUpdate x \<notin> set calls)
     \<and> ((\<exists>stored. Get (client r) clusterOperatorName = Found stored)
            \<longrightarrow> calls = [CallGet clusterOperatorName])"
proof -
  have absent: "FindStatusCondition (Conditions (co_Status co)) T = None"
    using assms(2) by (auto simp add: find_None_absent)
  have a: "clearCloudControllerOwnerCondition T r = (None, calls)"
    by (rule clear_absent [OF assms(1) absent])
  have b: "\<forall>x. CallStatusUpdate x \<notin> set calls"
    using getOrCreate_calls [OF assms(1)] by blast
  have c: "(\<exists>stored. Get (client r) clusterOperatorName = Found stored)
            \<longrightarrow> calls = [CallGet clusterOperatorName]"
    using assms(1) getOrCreate_Found [of r] by auto
  show ?thesis using a b c by (intro conjI)
qed

theorem removal_noop_witness:
  "clearCloudControllerOwnerCondition ''CloudControllerOwner'' ex_found_r
     = (None, [CallGet ''cloud-controller-manager''])
   \<and> clearCloudControllerOwnerCondition ''CloudControllerOwner'' ex_r
     = (None, [CallGet ''cloud-controller-manager'', CallCreate emptyClusterOperator])"
proof -
  have g1: "getOrCreateClusterOperator ex_r
              = (Inr emptyClusterOperator,
                 [CallGet ''cloud-controller-manager'', CallCreate emptyClusterOperator])"
    by (simp add: getOrCreateClusterOperator_def ex_r_def ex_client_def emptyClusterOperator_def
          clusterOperatorName_def Let_def)
  have g2: "getOrCreateClusterOperator ex_found_r
              = (Inr ex_co, [CallGet ''cloud-controller-manager''])"
    by (simp add: getOrCreateClusterOperator_def ex_found_r_def ex_found_client_def
          clusterOperatorName_def)
  have a1: "Conditions (co_Status emptyClusterOperator) = []
              \<or> ''CloudControllerOwner'' \<notin> Type ` set (Conditions (co_Status emptyClusterOperator))"
    by (simp add: emptyClusterOperator_def)
  have a2: "Conditions (co_Status ex_co) = []
              \<or> ''CloudControllerOwner'' \<notin> Type ` set (Conditions (co_Status ex_co))"
    by (simp add: ex_co_def ex_progressing_def)
  show ?thesis using removal_noop [OF g1 a1] removal_noop [OF g2 a2] by simp
qed

section \<open>Certificate data\<close>

lemma loop_result:
  assumes "consuming Decode"
  shows "\<exists>res. CertificateData_loop Decode Parse dat acc = Some res
     \<and> (isl res \<longleftrightarrow> (\<exists>b\<in>set (pemBlocks Decode dat). badBlock Parse b))
     \<and> (\<not> isl res \<longrightarrow> res = Inr (acc @ map (certOf Parse) (pemBlocks Decode dat)))"
proof (induction dat arbitrary: acc rule: length_induct)
  case (1 dat)
  show ?case
  proof (cases "dat = []")
    case True
    then show ?thesis
      by (simp add: CertificateData_loop.simps [of Decode Parse "[]"] pemBlocks.simps [of Decode "[]"])
  next
    case False
    obtain b rest where d: "Decode dat = (b, rest)" by (cases "Decode dat")
    show ?thesis
    proof (cases b)
      case None
      then show ?thesis using False d
        by (simp add: CertificateData_loop.simps [of Decode Parse dat] pemBlocks.simps [of Decode dat]
              badBlock_def)
    next
      case (Some block)
      have shorter: "length rest < length dat"
        using assms d Some unfolding consuming_def by blast
      show ?thesis
      proof (cases "block_Type block \<noteq> certPEMBlock")
        case True
        then show ?thesis using False d Some
          by (simp add: CertificateData_loop.simps [of Decode Parse dat]
                pemBlocks.simps [of Decode dat] badBlock_def)
      next
        case ty: False
        show ?thesis
        proof (cases "Parse (block_Bytes block)")
          case (Inl err)
          then show ?thesis using False d Some ty
            by (simp add: CertificateData_loop.simps [of Decode Parse dat]
                  pemBlocks.simps [of Decode dat] badBlock_def)
        next
          case (Inr cert)
          from 1 shorter obtain res where
            r: "CertificateData_loop Decode Parse rest (acc @ [cert]) = Some res"
            and e: "isl res \<longleftrightarrow> (\<exists>b\<in>set (pemBlocks Decode rest). badBlock Parse b)"
            and s: "\<not> isl res \<longrightarrow>
                     res = Inr ((acc @ [cert]) @ map (certOf Parse) (pemBlocks Decode rest))"
            by blast
          have step: "CertificateData_loop Decode Parse dat acc = Some res"
            using False d Some ty Inr r
            by (simp add: CertificateData_loop.simps [of Decode Parse dat])
          have blocks: "pemBlocks Decode dat = Some block # pemBlocks Decode rest"
            using False d Some shorter by (simp add: pemBlocks.simps [of Decode dat])
          have good: "\<not> badBlock Parse (Some block)"
            using ty Inr by (simp add: badBlock_def)
          have c: "certOf Parse (Some block) = cert" using Inr by (simp add: certOf_def)
          show ?thesis using step e s good c unfolding blocks by simp
        qed
      qed
    qed
  qed
qed

text \<open>
  C10. For a decoder that consumes what it finds, \<^verbatim>\<open>CertificateData\<close> returns; it returns
  an error exactly when some PEM block of the input fails to decode, has a type other than
  CERTIFICATE or fails certificate parsing; on success it returns the certificates parsed
  from the blocks, in input order; on the empty input it returns the empty list and no
  error.
\<close>

theorem CertificateData_error_iff:
  assumes "consuming Decode"
  shows "(\<exists>res. CertificateData Decode Parse certData = Some res
           \<and> (isl res \<longleftrightarrow> (\<exists>b\<in>set (pemBlocks Decode certData). badBlock Parse b))
           \<and> (\<not> isl res \<longrightarrow> res = Inr (map (certOf Parse) (pemBlocks Decode certData))))
     \<and> CertificateData Decode Parse [] = Some (Inr [])"
proof -
  have a: "\<exists>res. CertificateData Decode Parse certData = Some res
           \<and> (isl res \<longleftrightarrow> (\<exists>b\<in>set (pemBlocks Decode certData). badBlock Parse b))
           \<and> (\<not> isl res \<longrightarrow> res = Inr (map (certOf Parse) (pemBlocks Decode certData)))"
    using loop_result [OF assms, of Parse certData "[]"] by (simp add: CertificateData_def)
  have b: "CertificateData Decode Parse [] = Some (Inr [])"
    by (simp add: CertificateData_def CertificateData_loop.simps [of Decode Parse "[]"])
  show ?thesis using a b by (intro conjI)
qed

theorem CertificateData_error_iff_witness:
  "consuming ex_Decode
   \<and> CertificateData ex_Decode ex_Parse [1, 2] = Some (Inr [[1], [2]])
   \<and> CertificateData ex_Decode ex_Parse [] = Some (Inr [])"
proof -
  have c: "consuming ex_Decode"
    by (auto simp add: consuming_def ex_Decode_def split: list.splits if_splits)
  have b: "pemBlocks ex_Decode [1, 2]
             = [Some \<lparr>block_Type = ''CERTIFICATE'', block_Bytes = [1]\<rparr>,
                Some \<lparr>block_Type = ''CERTIFICATE'', block_Bytes = [2]\<rparr>]"
    by (simp add: pemBlocks.simps [of ex_Decode] ex_Decode_def)
  have g: "\<not> (\<exists>b\<in>set (pemBlocks ex_Decode [1, 2]). badBlock ex_Parse b)"
    unfolding b by (simp add: badBlock_def ex_Parse_def certPEMBlock_def)
  have m: "map (certOf ex_Parse) (pemBlocks ex_Decode [1, 2]) = [[1], [2]]"
    unfolding b by (simp add: certOf_def ex_Parse_def)
  from CertificateData_error_iff [OF c, of ex_Parse "[1, 2]"] g m
  have "CertificateData ex_Decode ex_Parse [1, 2] = Some (Inr [[1], [2]])
        \<and> CertificateData ex_Decode ex_Parse [] = Some (Inr [])"
    by auto
  with c show ?thesis by simp
qed

end
